theory Spec2Isabelle
  imports Complex_Main "HOL-Library.AList"
begin

section \<open>Values, documents and errors\<close>

text \<open>
  Request bodies and stored documents are JSON/BSON values. A Python \<open>dict\<close> is an
  association list (insertion order kept, first binding of a key wins), \<open>None\<close> is
  \<open>VNone\<close>, a \<open>float\<close> is a real number (no NaN, no infinities, no rounding), and a
  store identifier (\<open>bson.ObjectId\<close>) is the list of its bytes.
\<close>

datatype val =
    VNone
  | VBool bool
  | VInt int
  | VFloat real
  | VStr string
  | VObjectId "nat list"
  | VList "val list"
  | VDict "(string \<times> val) list"

type_synonym document = "(string \<times> val) list"

text \<open>\<open>d.get(k)\<close>: the value under \<open>k\<close>, \<open>None\<close> when the key is absent.\<close>

definition dict_get :: "document \<Rightarrow> string \<Rightarrow> val" where
  "dict_get d k = (case map_of d k of None \<Rightarrow> VNone | Some v \<Rightarrow> v)"

text \<open>
  Every \<open>raise\<close> of the program is a value. \<open>HTTPException\<close> carries the status code and
  the detail of \<open>main.py\<close>. \<open>RequestValidationError\<close> is the framework's rejection of a
  request body that does not fit the handler's parameter models (answered with status
  422); \<open>ValidationError\<close> is the same failure when a model is constructed inside a
  handler, \<open>InvalidId\<close> is raised by \<open>ObjectId\<close>, \<open>StoreUnavailable\<close> by the store adapter;
  an exception that leaves a handler uncaught is answered with status 500.
\<close>

datatype error =
    HTTPException nat string
  | RequestValidationError
  | ValidationError
  | InvalidId
  | StoreUnavailable

fun http_status :: "error \<Rightarrow> nat" where
  "http_status (HTTPException code detail) = code"
| "http_status RequestValidationError = 422"
| "http_status ValidationError = 500"
| "http_status InvalidId = 500"
| "http_status StoreUnavailable = 500"

definition client_error :: "error \<Rightarrow> bool" where
  "client_error e = (400 \<le> http_status e \<and> http_status e < 500)"

definition bind_result :: "error + 'a \<Rightarrow> ('a \<Rightarrow> error + 'b) \<Rightarrow> error + 'b" where
  "bind_result r f = (case r of Inl e \<Rightarrow> Inl e | Inr x \<Rightarrow> f x)"


section \<open>Admin auth (\<open>main.py\<close>)\<close>

text \<open>The process environment, as the variables that are set and their values.\<close>

type_synonym environ = "(string \<times> string) list"

text \<open>\<open>os.getenv(key, default)\<close>.\<close>

definition getenv :: "environ \<Rightarrow> string \<Rightarrow> string \<Rightarrow> string" where
  "getenv environ key dflt = (case map_of environ key of None \<Rightarrow> dflt | Some v \<Rightarrow> v)"

definition verify_admin :: "environ \<Rightarrow> string \<Rightarrow> error + unit" where
  "verify_admin environ password =
     (let admin_pw = getenv environ ''ADMIN_PASSWORD'' ''admin123''
      in if password \<noteq> admin_pw
         then Inl (HTTPException 401 ''Invalid admin password'')
         else Inr ())"


record AdminLoginRequest =
  password :: string


section \<open>The document store\<close>

text \<open>
  The database handle \<open>db\<close> is \<open>None\<close> when no connection was configured; otherwise it
  gives, for each collection name, the stored documents in storage order.
\<close>

type_synonym database = "string \<Rightarrow> document list"

text \<open>A database in which nothing has been stored.\<close>

definition no_documents :: database where
  "no_documents collection_name = []"

subsection \<open>\<open>bson.ObjectId\<close> from a string\<close>

definition hex_table :: "(char \<times> nat) list" where
  "hex_table =
     [(CHR ''0'', 0), (CHR ''1'', 1), (CHR ''2'', 2), (CHR ''3'', 3), (CHR ''4'', 4),
      (CHR ''5'', 5), (CHR ''6'', 6), (CHR ''7'', 7), (CHR ''8'', 8), (CHR ''9'', 9),
      (CHR ''a'', 10), (CHR ''b'', 11), (CHR ''c'', 12), (CHR ''d'', 13), (CHR ''e'', 14),
      (CHR ''f'', 15), (CHR ''A'', 10), (CHR ''B'', 11), (CHR ''C'', 12), (CHR ''D'', 13),
      (CHR ''E'', 14), (CHR ''F'', 15)]"

definition is_space :: "char \<Rightarrow> bool" where
  "is_space c = (of_char c \<in> set [9, 10, 11, 12, 13, 32 :: nat])"

text \<open>
  \<open>bytes.fromhex\<close>: two hexadecimal digits per byte, ASCII whitespace between bytes
  skipped, \<open>None\<close> where Python raises \<open>ValueError\<close>.
\<close>

fun fromhex :: "string \<Rightarrow> nat list option" where
  "fromhex [] = Some []"
| "fromhex [c] = (if is_space c then Some [] else None)"
| "fromhex (c # c' # cs) =
     (if is_space c then fromhex (c' # cs)
      else (case (map_of hex_table c, map_of hex_table c') of
              (Some hi, Some lo) \<Rightarrow> map_option ((#) (16 * hi + lo)) (fromhex cs)
            | _ \<Rightarrow> None))"

text \<open>
  \<open>ObjectId(oid)\<close> for a string: a string of length 24 that \<open>bytes.fromhex\<close> accepts;
  \<open>None\<close> where the constructor raises \<open>InvalidId\<close>.
\<close>

definition ObjectId :: "string \<Rightarrow> nat list option" where
  "ObjectId oid = (if length oid = 24 then fromhex oid else None)"

text \<open>\<open>str(oid)\<close>: the bytes in lower-case hexadecimal.\<close>

definition hexdigit :: "nat \<Rightarrow> char" where
  "hexdigit n = ''0123456789abcdef'' ! (n mod 16)"

definition str_ObjectId :: "nat list \<Rightarrow> string" where
  "str_ObjectId bs = concat (map (\<lambda>b. [hexdigit (b div 16), hexdigit b]) bs)"

subsection \<open>The adapter: \<open>create_document\<close> and \<open>get_documents\<close>\<close>

text \<open>
  Modelled from the spec: \<open>create_document\<close> of \<open>database.py\<close>, which is not among the
  sources. The spec gives \<open>create(collectionName, record) -> opaqueId\<close>, which persists
  one new document per call, and a store-unavailable failure when the connection was
  never established. The identifier is assigned by the store, so it is an input here;
  the new document is the record's fields under that identifier, the result is the
  identifier as a string.
\<close>

definition create_document ::
  "database option \<Rightarrow> string \<Rightarrow> document \<Rightarrow> nat list \<Rightarrow> (error + string) \<times> database option" where
  "create_document db collection_name data new_oid =
     (case db of
        None \<Rightarrow> (Inl StoreUnavailable, db)
      | Some d \<Rightarrow>
          (Inr (str_ObjectId new_oid),
           Some (d(collection_name := d collection_name @ [(''_id'', VObjectId new_oid) # data]))))"

text \<open>
  Modelled from the spec: \<open>get_documents\<close> of \<open>database.py\<close>, which is not among the
  sources. The spec gives \<open>list(collectionName)\<close>, the raw documents of the collection in
  storage order with no filtering, pagination or projection, and the same
  store-unavailable failure.
\<close>

definition get_documents :: "database option \<Rightarrow> string \<Rightarrow> error + document list" where
  "get_documents db collection_name =
     (case db of None \<Rightarrow> Inl StoreUnavailable | Some d \<Rightarrow> Inr (d collection_name))"

subsection \<open>\<open>update_one\<close> with an \<open>_id\<close> filter and a \<open>$set\<close> update\<close>

text \<open>\<open>$set\<close>: each named field is overwritten, or added at the end when absent.\<close>

definition set_fields :: "(string \<times> val) list \<Rightarrow> document \<Rightarrow> document" where
  "set_fields upd doc = fold (\<lambda>(k, v). AList.update k v) upd doc"

text \<open>
  \<open>collection.update_one({"_id": oid}, {"$set": upd})\<close>: the first document whose
  \<open>_id\<close> equals \<open>oid\<close> is updated; the result is \<open>matched_count\<close> and the collection.
\<close>

fun update_one :: "document list \<Rightarrow> val \<Rightarrow> (string \<times> val) list \<Rightarrow> nat \<times> document list" where
  "update_one [] oid upd = (0, [])"
| "update_one (doc # docs) oid upd =
     (if map_of doc ''_id'' = Some oid then (1, set_fields upd doc # docs)
      else (case update_one docs oid upd of (n, docs') \<Rightarrow> (n, doc # docs')))"


section \<open>Schemas (\<open>schemas.py\<close>)\<close>

text \<open>
  A model class is a record of its fields, in the order of the class; a \<open>Literal\<close> field
  stays the string it is in Python. Validation follows the field declarations: a field
  declared with \<open>...\<close> or with no default is required, a field with a default takes it
  when the key is absent (a key that is present with value \<open>None\<close> is validated like
  any other value), keys that the class does not declare are ignored.

  The validation library works in its default mode, which converts between JSON types
  where it can: \<open>bool\<close> takes a boolean, the numbers 0 and 1 and the usual words for
  true and false; \<open>int\<close> takes an integer, a boolean, a float without fraction and a
  string of decimal digits; \<open>float\<close> takes a float, an integer, a boolean and a string
  in decimal notation. \<open>str\<close> takes strings only, a \<open>Literal\<close> only the listed
  strings, and \<open>None\<close> is taken by \<open>Optional\<close> alone. Of the strings that the library
  reads as numbers, the ones with digit separators and the names of the infinities and
  of NaN are left out.
\<close>

subsection \<open>Strings read as booleans and numbers\<close>

definition lower :: "string \<Rightarrow> string" where
  "lower s =
     map (\<lambda>c. if of_char c \<in> {65 .. 90 :: nat} then char_of (of_char c + 32 :: nat) else c) s"

definition strip :: "string \<Rightarrow> string" where
  "strip s = rev (dropWhile is_space (rev (dropWhile is_space s)))"

definition str_as_bool :: "string \<Rightarrow> bool option" where
  "str_as_bool s =
     (if lower s \<in> set [''1'', ''on'', ''t'', ''true'', ''y'', ''yes''] then Some True
      else if lower s \<in> set [''0'', ''off'', ''f'', ''false'', ''n'', ''no''] then Some False
      else None)"

definition digit :: "char \<Rightarrow> nat option" where
  "digit c = (if of_char c \<in> {48 .. 57 :: nat} then Some (of_char c - 48) else None)"

text \<open>The number that a string of decimal digits denotes, after the digits read so far.\<close>

fun digits :: "nat \<Rightarrow> string \<Rightarrow> nat option" where
  "digits acc [] = Some acc"
| "digits acc (c # cs) =
     (case digit c of None \<Rightarrow> None | Some k \<Rightarrow> digits (10 * acc + k) cs)"

definition signed_digits :: "string \<Rightarrow> int option" where
  "signed_digits s =
     (case s of
        [] \<Rightarrow> None
      | c # cs \<Rightarrow>
          if c = CHR ''-'' then (if cs = [] then None else map_option (\<lambda>n. - int n) (digits 0 cs))
          else if c = CHR ''+'' then (if cs = [] then None else map_option int (digits 0 cs))
          else map_option int (digits 0 s))"

definition str_as_int :: "string \<Rightarrow> int option" where
  "str_as_int s = signed_digits (strip s)"

text \<open>Digits with an optional point, at least one digit in all.\<close>

definition decimal :: "string \<Rightarrow> real option" where
  "decimal s =
     (let ip = takeWhile (\<lambda>c. c \<noteq> CHR ''.'') s;
          fp = drop (Suc (length ip)) s
      in if ip = [] \<and> fp = [] then None
         else (case (digits 0 ip, digits 0 fp) of
                 (Some a, Some b) \<Rightarrow> Some (real a + real b / 10 ^ length fp)
               | _ \<Rightarrow> None))"

definition scale :: "real \<Rightarrow> int \<Rightarrow> real" where
  "scale x k = (if 0 \<le> k then x * 10 ^ nat k else x / 10 ^ nat (- k))"

text \<open>A decimal with an optional exponent part.\<close>

definition unsigned_float :: "string \<Rightarrow> real option" where
  "unsigned_float s =
     (let m = takeWhile (\<lambda>c. c \<noteq> CHR ''e'' \<and> c \<noteq> CHR ''E'') s;
          r = drop (length m) s
      in case decimal m of
           None \<Rightarrow> None
         | Some x \<Rightarrow>
             if r = [] then Some x
             else map_option (scale x) (signed_digits (tl r)))"

definition str_as_float :: "string \<Rightarrow> real option" where
  "str_as_float s =
     (case strip s of
        [] \<Rightarrow> None
      | c # cs \<Rightarrow>
          if c = CHR ''-'' then map_option uminus (unsigned_float cs)
          else if c = CHR ''+'' then unsigned_float cs
          else unsigned_float (c # cs))"

subsection \<open>Field types\<close>

fun validate_str :: "val \<Rightarrow> error + string" where
  "validate_str (VStr s) = Inr s"
| "validate_str _ = Inl ValidationError"

fun validate_bool :: "val \<Rightarrow> error + bool" where
  "validate_bool (VBool b) = Inr b"
| "validate_bool (VInt i) =
     (if i = 0 then Inr False else if i = 1 then Inr True else Inl ValidationError)"
| "validate_bool (VFloat x) =
     (if x = 0 then Inr False else if x = 1 then Inr True else Inl ValidationError)"
| "validate_bool (VStr s) =
     (case str_as_bool s of None \<Rightarrow> Inl ValidationError | Some b \<Rightarrow> Inr b)"
| "validate_bool _ = Inl ValidationError"

fun validate_int :: "val \<Rightarrow> error + int" where
  "validate_int (VInt i) = Inr i"
| "validate_int (VBool b) = Inr (if b then 1 else 0)"
| "validate_int (VFloat x) =
     (if of_int \<lfloor>x\<rfloor> = x then Inr \<lfloor>x\<rfloor> else Inl ValidationError)"
| "validate_int (VStr s) =
     (case str_as_int s of None \<Rightarrow> Inl ValidationError | Some i \<Rightarrow> Inr i)"
| "validate_int _ = Inl ValidationError"

fun validate_float :: "val \<Rightarrow> error + real" where
  "validate_float (VFloat x) = Inr x"
| "validate_float (VInt i) = Inr (of_int i)"
| "validate_float (VBool b) = Inr (if b then 1 else 0)"
| "validate_float (VStr s) =
     (case str_as_float s of None \<Rightarrow> Inl ValidationError | Some x \<Rightarrow> Inr x)"
| "validate_float _ = Inl ValidationError"

text \<open>\<open>Field(..., ge=bound)\<close>.\<close>

definition validate_int_ge :: "int \<Rightarrow> val \<Rightarrow> error + int" where
  "validate_int_ge bound v =
     bind_result (validate_int v) (\<lambda>i. if bound \<le> i then Inr i else Inl ValidationError)"

definition validate_float_ge :: "real \<Rightarrow> val \<Rightarrow> error + real" where
  "validate_float_ge bound v =
     bind_result (validate_float v) (\<lambda>x. if bound \<le> x then Inr x else Inl ValidationError)"

text \<open>\<open>Optional[T]\<close>.\<close>

definition validate_optional :: "(val \<Rightarrow> error + 'a) \<Rightarrow> val \<Rightarrow> error + 'a option" where
  "validate_optional validate v =
     (if v = VNone then Inr None else bind_result (validate v) (\<lambda>x. Inr (Some x)))"

text \<open>\<open>Literal[...]\<close>: one of the listed strings, compared exactly.\<close>

definition validate_literal :: "string list \<Rightarrow> val \<Rightarrow> error + string" where
  "validate_literal choices v =
     (case v of VStr s \<Rightarrow> if s \<in> set choices then Inr s else Inl ValidationError
      | _ \<Rightarrow> Inl ValidationError)"

text \<open>\<open>List[T]\<close>: every element is validated, the first failure is the result.\<close>

fun validate_each :: "(val \<Rightarrow> error + 'a) \<Rightarrow> val list \<Rightarrow> error + 'a list" where
  "validate_each validate [] = Inr []"
| "validate_each validate (v # vs) =
     bind_result (validate v) (\<lambda>x. bind_result (validate_each validate vs) (\<lambda>xs. Inr (x # xs)))"

definition validate_list :: "(val \<Rightarrow> error + 'a) \<Rightarrow> val \<Rightarrow> error + 'a list" where
  "validate_list validate v =
     (case v of VList vs \<Rightarrow> validate_each validate vs | _ \<Rightarrow> Inl ValidationError)"

definition required :: "document \<Rightarrow> string \<Rightarrow> (val \<Rightarrow> error + 'a) \<Rightarrow> error + 'a" where
  "required d k validate =
     (case map_of d k of None \<Rightarrow> Inl ValidationError | Some v \<Rightarrow> validate v)"

definition with_default :: "document \<Rightarrow> string \<Rightarrow> 'a \<Rightarrow> (val \<Rightarrow> error + 'a) \<Rightarrow> error + 'a" where
  "with_default d k dflt validate =
     (case map_of d k of None \<Rightarrow> Inr dflt | Some v \<Rightarrow> validate v)"

definition opt_val :: "('a \<Rightarrow> val) \<Rightarrow> 'a option \<Rightarrow> val" where
  "opt_val f x = (case x of None \<Rightarrow> VNone | Some y \<Rightarrow> f y)"

definition validate_AdminLoginRequest :: "val \<Rightarrow> error + AdminLoginRequest" where
  "validate_AdminLoginRequest v =
     (case v of
        VDict d \<Rightarrow>
          bind_result (required d ''password'' validate_str) (\<lambda>pw.
          Inr \<lparr>AdminLoginRequest.password = pw\<rparr>)
      | _ \<Rightarrow> Inl ValidationError)"

subsection \<open>\<open>ButcherItem\<close>\<close>

record ButcherItem =
  title :: string
  description :: "string option"
  price_per_kg :: real
  available :: bool
  image :: "string option"

definition validate_ButcherItem :: "val \<Rightarrow> error + ButcherItem" where
  "validate_ButcherItem v =
     (case v of
        VDict d \<Rightarrow>
          bind_result (required d ''title'' validate_str) (\<lambda>t.
          bind_result (with_default d ''description'' None (validate_optional validate_str)) (\<lambda>ds.
          bind_result (required d ''price_per_kg'' (validate_float_ge 0)) (\<lambda>p.
          bind_result (with_default d ''available'' True validate_bool) (\<lambda>a.
          bind_result (with_default d ''image'' None (validate_optional validate_str)) (\<lambda>i.
          Inr \<lparr>ButcherItem.title = t, description = ds, price_per_kg = p,
               available = a, image = i\<rparr>)))))
      | _ \<Rightarrow> Inl ValidationError)"

text \<open>\<open>model_dump()\<close>: the fields as a \<open>dict\<close>, in declaration order.\<close>

definition dump_ButcherItem :: "ButcherItem \<Rightarrow> document" where
  "dump_ButcherItem item =
     [(''title'', VStr (ButcherItem.title item)),
      (''description'', opt_val VStr (ButcherItem.description item)),
      (''price_per_kg'', VFloat (price_per_kg item)),
      (''available'', VBool (ButcherItem.available item)),
      (''image'', opt_val VStr (ButcherItem.image item))]"

subsection \<open>\<open>GroceryItem\<close>\<close>

record GroceryItem =
  title :: string
  description :: "string option"
  price :: real
  available :: bool
  image :: "string option"

definition validate_GroceryItem :: "val \<Rightarrow> error + GroceryItem" where
  "validate_GroceryItem v =
     (case v of
        VDict d \<Rightarrow>
          bind_result (required d ''title'' validate_str) (\<lambda>t.
          bind_result (with_default d ''description'' None (validate_optional validate_str)) (\<lambda>ds.
          bind_result (required d ''price'' (validate_float_ge 0)) (\<lambda>p.
          bind_result (with_default d ''available'' True validate_bool) (\<lambda>a.
          bind_result (with_default d ''image'' None (validate_optional validate_str)) (\<lambda>i.
          Inr \<lparr>GroceryItem.title = t, description = ds, price = p,
               available = a, image = i\<rparr>)))))
      | _ \<Rightarrow> Inl ValidationError)"

definition dump_GroceryItem :: "GroceryItem \<Rightarrow> document" where
  "dump_GroceryItem item =
     [(''title'', VStr (GroceryItem.title item)),
      (''description'', opt_val VStr (GroceryItem.description item)),
      (''price'', VFloat (price item)),
      (''available'', VBool (GroceryItem.available item)),
      (''image'', opt_val VStr (GroceryItem.image item))]"

subsection \<open>\<open>OrderItem\<close> and \<open>Order\<close>\<close>

record OrderItem =
  type :: string
  item_id :: string
  title :: string
  unit_price :: real
  quantity :: "int option"
  weight_kg :: "real option"
  subtotal :: real

definition validate_OrderItem :: "val \<Rightarrow> error + OrderItem" where
  "validate_OrderItem v =
     (case v of
        VDict d \<Rightarrow>
          bind_result (required d ''type'' (validate_literal [''butcher'', ''grocery''])) (\<lambda>ty.
          bind_result (required d ''item_id'' validate_str) (\<lambda>iid.
          bind_result (required d ''title'' validate_str) (\<lambda>t.
          bind_result (required d ''unit_price'' (validate_float_ge 0)) (\<lambda>up.
          bind_result (with_default d ''quantity'' None (validate_optional (validate_int_ge 1))) (\<lambda>q.
          bind_result (with_default d ''weight_kg'' None (validate_optional (validate_float_ge 0.1))) (\<lambda>w.
          bind_result (required d ''subtotal'' (validate_float_ge 0)) (\<lambda>st.
          Inr \<lparr>OrderItem.type = ty, item_id = iid, title = t, unit_price = up,
               quantity = q, weight_kg = w, subtotal = st\<rparr>)))))))
      | _ \<Rightarrow> Inl ValidationError)"

definition dump_OrderItem :: "OrderItem \<Rightarrow> document" where
  "dump_OrderItem item =
     [(''type'', VStr (OrderItem.type item)),
      (''item_id'', VStr (item_id item)),
      (''title'', VStr (OrderItem.title item)),
      (''unit_price'', VFloat (unit_price item)),
      (''quantity'', opt_val VInt (quantity item)),
      (''weight_kg'', opt_val VFloat (weight_kg item)),
      (''subtotal'', VFloat (subtotal item))]"

record Order =
  customer_name :: string
  phone :: string
  address :: string
  payment_method :: string
  status :: string
  items :: "OrderItem list"
  total :: real

definition validate_Order :: "val \<Rightarrow> error + Order" where
  "validate_Order v =
     (case v of
        VDict d \<Rightarrow>
          bind_result (required d ''customer_name'' validate_str) (\<lambda>cn.
          bind_result (required d ''phone'' validate_str) (\<lambda>ph.
          bind_result (required d ''address'' validate_str) (\<lambda>ad.
          bind_result (required d ''payment_method''
              (validate_literal [''Cash on Delivery'', ''Card on Delivery''])) (\<lambda>pm.
          bind_result (with_default d ''status'' ''Pending''
              (validate_literal [''Pending'', ''Confirmed'', ''Ready for Pickup'', ''Delivered''])) (\<lambda>st.
          bind_result (required d ''items'' (validate_list validate_OrderItem)) (\<lambda>its.
          bind_result (required d ''total'' (validate_float_ge 0)) (\<lambda>tot.
          Inr \<lparr>customer_name = cn, phone = ph, address = ad, payment_method = pm,
               status = st, items = its, total = tot\<rparr>)))))))
      | _ \<Rightarrow> Inl ValidationError)"

definition dump_Order :: "Order \<Rightarrow> document" where
  "dump_Order order =
     [(''customer_name'', VStr (customer_name order)),
      (''phone'', VStr (phone order)),
      (''address'', VStr (address order)),
      (''payment_method'', VStr (payment_method order)),
      (''status'', VStr (Order.status order)),
      (''items'', VList (map (\<lambda>i. VDict (dump_OrderItem i)) (items order))),
      (''total'', VFloat (total order))]"


section \<open>Inventory endpoints (\<open>main.py\<close>)\<close>

text \<open>
  The loop of \<open>list_butcher_items\<close>: each stored document is cut down to the five keys
  with \<open>d.get(k)\<close> and given to the \<open>ButcherItem\<close> constructor, whose \<open>ValidationError\<close>
  nothing catches; \<open>acc\<close> is the list \<open>items\<close> built so far.
\<close>

fun list_butcher_items_loop :: "document list \<Rightarrow> ButcherItem list \<Rightarrow> error + ButcherItem list" where
  "list_butcher_items_loop [] acc = Inr acc"
| "list_butcher_items_loop (d # docs) acc =
     bind_result
       (validate_ButcherItem (VDict (map (\<lambda>k. (k, dict_get d k))
          [''title'', ''description'', ''price_per_kg'', ''available'', ''image''])))
       (\<lambda>item. list_butcher_items_loop docs (acc @ [item]))"

definition list_butcher_items :: "database option \<Rightarrow> error + ButcherItem list" where
  "list_butcher_items db =
     bind_result (get_documents db ''butcheritem'') (\<lambda>docs. list_butcher_items_loop docs [])"

definition create_butcher_item ::
  "environ \<Rightarrow> database option \<Rightarrow> ButcherItem \<Rightarrow> AdminLoginRequest \<Rightarrow> nat list
     \<Rightarrow> (error + document) \<times> database option" where
  "create_butcher_item environ db item auth new_oid =
     (case verify_admin environ (AdminLoginRequest.password auth) of
        Inl e \<Rightarrow> (Inl e, db)
      | Inr _ \<Rightarrow>
          (case create_document db ''butcheritem'' (dump_ButcherItem item) new_oid of
             (Inl e, db') \<Rightarrow> (Inl e, db')
           | (Inr new_id, db') \<Rightarrow> (Inr [(''_id'', VStr new_id)], db')))"

fun list_grocery_items_loop :: "document list \<Rightarrow> GroceryItem list \<Rightarrow> error + GroceryItem list" where
  "list_grocery_items_loop [] acc = Inr acc"
| "list_grocery_items_loop (d # docs) acc =
     bind_result
       (validate_GroceryItem (VDict (map (\<lambda>k. (k, dict_get d k))
          [''title'', ''description'', ''price'', ''available'', ''image''])))
       (\<lambda>item. list_grocery_items_loop docs (acc @ [item]))"

definition list_grocery_items :: "database option \<Rightarrow> error + GroceryItem list" where
  "list_grocery_items db =
     bind_result (get_documents db ''groceryitem'') (\<lambda>docs. list_grocery_items_loop docs [])"

definition create_grocery_item ::
  "environ \<Rightarrow> database option \<Rightarrow> GroceryItem \<Rightarrow> AdminLoginRequest \<Rightarrow> nat list
     \<Rightarrow> (error + document) \<times> database option" where
  "create_grocery_item environ db item auth new_oid =
     (case verify_admin environ (AdminLoginRequest.password auth) of
        Inl e \<Rightarrow> (Inl e, db)
      | Inr _ \<Rightarrow>
          (case create_document db ''groceryitem'' (dump_GroceryItem item) new_oid of
             (Inl e, db') \<Rightarrow> (Inl e, db')
           | (Inr new_id, db') \<Rightarrow> (Inr [(''_id'', VStr new_id)], db')))"

text \<open>
  The routes as the framework serves them. A request body is validated against the
  handler's parameter models before the handler runs, and a body that does not fit is
  refused with \<open>RequestValidationError\<close>; a handler with two model parameters reads each
  from the key of its name. What a handler with a \<open>response_model\<close> returns is sent as
  the fields of that model.
\<close>

definition get_api_butcher :: "database option \<Rightarrow> error + document list" where
  "get_api_butcher db =
     bind_result (list_butcher_items db) (\<lambda>listed. Inr (map dump_ButcherItem listed))"

definition get_api_grocery :: "database option \<Rightarrow> error + document list" where
  "get_api_grocery db =
     bind_result (list_grocery_items db) (\<lambda>listed. Inr (map dump_GroceryItem listed))"

definition post_api_admin_butcher ::
  "environ \<Rightarrow> database option \<Rightarrow> val \<Rightarrow> nat list \<Rightarrow> (error + document) \<times> database option" where
  "post_api_admin_butcher environ db body new_oid =
     (case body of
        VDict b \<Rightarrow>
          (case (required b ''item'' validate_ButcherItem,
                 required b ''auth'' validate_AdminLoginRequest) of
             (Inr item, Inr auth) \<Rightarrow> create_butcher_item environ db item auth new_oid
           | _ \<Rightarrow> (Inl RequestValidationError, db))
      | _ \<Rightarrow> (Inl RequestValidationError, db))"

definition post_api_admin_grocery ::
  "environ \<Rightarrow> database option \<Rightarrow> val \<Rightarrow> nat list \<Rightarrow> (error + document) \<times> database option" where
  "post_api_admin_grocery environ db body new_oid =
     (case body of
        VDict b \<Rightarrow>
          (case (required b ''item'' validate_GroceryItem,
                 required b ''auth'' validate_AdminLoginRequest) of
             (Inr item, Inr auth) \<Rightarrow> create_grocery_item environ db item auth new_oid
           | _ \<Rightarrow> (Inl RequestValidationError, db))
      | _ \<Rightarrow> (Inl RequestValidationError, db))"


section \<open>Orders (\<open>main.py\<close>)\<close>

definition create_order ::
  "database option \<Rightarrow> Order \<Rightarrow> nat list \<Rightarrow> (error + document) \<times> database option" where
  "create_order db order new_oid =
     (if payment_method order \<notin> set [''Cash on Delivery'', ''Card on Delivery'']
      then (Inl (HTTPException 400 ''Unsupported payment method''), db)
      else (case create_document db ''order'' (dump_Order order) new_oid of
              (Inl e, db') \<Rightarrow> (Inl e, db')
            | (Inr order_id, db') \<Rightarrow> (Inr [(''_id'', VStr order_id)], db')))"

text \<open>The route \<open>POST /api/orders\<close>: the body is the \<open>Order\<close>.\<close>

definition post_api_orders ::
  "database option \<Rightarrow> val \<Rightarrow> nat list \<Rightarrow> (error + document) \<times> database option" where
  "post_api_orders db body new_oid =
     (case validate_Order body of
        Inl _ \<Rightarrow> (Inl RequestValidationError, db)
      | Inr order \<Rightarrow> create_order db order new_oid)"

record UpdateStatusRequest =
  password :: string
  status :: string

text \<open>
  The body of the \<open>try\<close> block of \<open>update_order_status\<close>: the raised exception, if any,
  and the database as the block leaves it.
\<close>

definition update_order_status_try ::
  "database \<Rightarrow> string \<Rightarrow> string \<Rightarrow> (error + unit) \<times> database" where
  "update_order_status_try d order_id new_status =
     (case ObjectId order_id of
        None \<Rightarrow> (Inl InvalidId, d)
      | Some oid \<Rightarrow>
          (case update_one (d ''order'') (VObjectId oid)
                  [(''status'', VStr new_status), (''updated_at'', VNone)] of
             (matched_count, docs) \<Rightarrow>
               if matched_count = 0
               then (Inl (HTTPException 404 ''Order not found''), d(''order'' := docs))
               else (Inr (), d(''order'' := docs))))"

text \<open>
  \<open>except Exception\<close> catches whatever the block raises, the 404 included, and raises
  status 400 in its place.
\<close>

definition update_order_status ::
  "environ \<Rightarrow> database option \<Rightarrow> string \<Rightarrow> UpdateStatusRequest
     \<Rightarrow> (error + document) \<times> database option" where
  "update_order_status environ db order_id body =
     (case verify_admin environ (UpdateStatusRequest.password body) of
        Inl e \<Rightarrow> (Inl e, db)
      | Inr _ \<Rightarrow>
          if UpdateStatusRequest.status body \<notin> set [''Pending'', ''Confirmed'', ''Ready for Pickup'', ''Delivered'']
          then (Inl (HTTPException 400 ''Invalid status''), db)
          else (case db of
                  None \<Rightarrow> (Inl (HTTPException 500 ''Database not available''), db)
                | Some d \<Rightarrow>
                    (case update_order_status_try d order_id (UpdateStatusRequest.status body) of
                       (Inl _, d') \<Rightarrow> (Inl (HTTPException 400 ''Invalid order id''), Some d')
                     | (Inr _, d') \<Rightarrow> (Inr [(''ok'', VBool True)], Some d'))))"


section \<open>The admin gate\<close>

text \<open>
  C9. \<open>verify_admin\<close> succeeds exactly when the supplied password equals the configured
  one, which is the value of \<open>ADMIN_PASSWORD\<close> and \<open>admin123\<close> when that is unset; every
  other string is refused with status 401.
\<close>

theorem verify_admin_exact_match:
  "(verify_admin environ supplied = Inr ())
     = (supplied = (case map_of environ ''ADMIN_PASSWORD'' of None \<Rightarrow> ''admin123'' | Some pw \<Rightarrow> pw))
   \<and> (supplied \<noteq> (case map_of environ ''ADMIN_PASSWORD'' of None \<Rightarrow> ''admin123'' | Some pw \<Rightarrow> pw)
        \<longrightarrow> verify_admin environ supplied = Inl (HTTPException 401 ''Invalid admin password''))"
  by (simp add: verify_admin_def getenv_def)

theorem verify_admin_exact_match_witness:
  "verify_admin [] ''admin123'' = Inr ()
   \<and> ''admin124'' \<noteq> ''admin123''
   \<and> verify_admin [] ''admin124'' = Inl (HTTPException 401 ''Invalid admin password'')
   \<and> verify_admin [(''ADMIN_PASSWORD'', ''s3cret'')] ''admin123''
        = Inl (HTTPException 401 ''Invalid admin password'')"
  using verify_admin_exact_match [of "[]" "''admin123''"]
    verify_admin_exact_match [of "[]" "''admin124''"]
    verify_admin_exact_match [of "[(''ADMIN_PASSWORD'', ''s3cret'')]" "''admin123''"]
  by simp

section \<open>The order status operation\<close>

lemma update_one_no_match:
  "\<forall>doc\<in>set docs. map_of doc ''_id'' \<noteq> Some oid \<Longrightarrow> update_one docs oid upd = (0, docs)"
  by (induction docs) auto

lemma update_one_first_match:
  "\<forall>x\<in>set pre. map_of x ''_id'' \<noteq> Some oid \<Longrightarrow> map_of doc ''_id'' = Some oid \<Longrightarrow>
   update_one (pre @ doc # post) oid upd = (1, pre @ set_fields upd doc # post)"
  by (induction pre) auto

lemma map_of_set_fields_status:
  "map_of (set_fields [(''status'', s), (''updated_at'', u)] doc) k =
     (if k = ''updated_at'' then Some u else if k = ''status'' then Some s else map_of doc k)"
  by (simp add: set_fields_def update_conv')

text \<open>
  C3. A status request whose password differs from the configured one is refused with
  status 401, whatever the order id and the status, and the database, the target order
  with its \<open>status\<close> and \<open>updated_at\<close> included, is as it was.
\<close>

theorem update_order_status_wrong_secret:
  "UpdateStatusRequest.password body \<noteq> getenv environ ''ADMIN_PASSWORD'' ''admin123'' \<Longrightarrow>
   update_order_status environ db order_id body
     = (Inl (HTTPException 401 ''Invalid admin password''), db)"
  by (simp add: update_order_status_def verify_admin_def)

theorem update_order_status_wrong_secret_witness:
  "update_order_status [] (Some (no_documents(''order'' :=
       [[(''_id'', VObjectId [0,0,0,0,0,0,0,0,0,0,0,161]), (''status'', VStr ''Pending'')]])))
     ''0000000000000000000000a1''
     \<lparr>UpdateStatusRequest.password = ''letmein'', status = ''Delivered''\<rparr>
   = (Inl (HTTPException 401 ''Invalid admin password''),
      Some (no_documents(''order'' :=
       [[(''_id'', VObjectId [0,0,0,0,0,0,0,0,0,0,0,161]), (''status'', VStr ''Pending'')]])))"
  using update_order_status_wrong_secret [of "\<lparr>UpdateStatusRequest.password = ''letmein'', status = ''Delivered''\<rparr>" "[]"]
  by (simp add: getenv_def)

text \<open>
  C4. With the right password, a status request whose status is none of \<open>Pending\<close>,
  \<open>Confirmed\<close>, \<open>Ready for Pickup\<close>, \<open>Delivered\<close> is refused with status 400 and detail
  \<open>Invalid status\<close>, and the database is as it was.
\<close>

theorem update_order_status_invalid_status:
  "verify_admin environ (UpdateStatusRequest.password body) = Inr () \<Longrightarrow>
   UpdateStatusRequest.status body \<notin> {''Pending'', ''Confirmed'', ''Ready for Pickup'', ''Delivered''} \<Longrightarrow>
   update_order_status environ db order_id body = (Inl (HTTPException 400 ''Invalid status''), db)"
  by (simp add: update_order_status_def)

theorem update_order_status_invalid_status_witness:
  "update_order_status [] (Some (no_documents(''order'' :=
       [[(''_id'', VObjectId [0,0,0,0,0,0,0,0,0,0,0,161]), (''status'', VStr ''Pending'')]])))
     ''0000000000000000000000a1''
     \<lparr>UpdateStatusRequest.password = ''admin123'', status = ''Shipped''\<rparr>
   = (Inl (HTTPException 400 ''Invalid status''),
      Some (no_documents(''order'' :=
       [[(''_id'', VObjectId [0,0,0,0,0,0,0,0,0,0,0,161]), (''status'', VStr ''Pending'')]])))"
  using update_order_status_invalid_status [of "[]" "\<lparr>UpdateStatusRequest.password = ''admin123'', status = ''Shipped''\<rparr>"]
  by (simp add: verify_admin_def getenv_def)

text \<open>
  C2. A status request whose order id is malformed, or is the id of no stored order,
  fails and leaves the database as it was; when the request passes the password and
  status checks and the database is available, the failure is status 400 with detail
  \<open>Invalid order id\<close>, for the malformed and the unknown id alike.
\<close>

theorem update_order_status_unknown_id:
  assumes "\<forall>oid d. ObjectId order_id = Some oid \<and> db = Some d \<longrightarrow>
             (\<forall>doc\<in>set (d ''order''). map_of doc ''_id'' \<noteq> Some (VObjectId oid))"
  shows "(\<exists>e. update_order_status environ db order_id body = (Inl e, db))
       \<and> (verify_admin environ (UpdateStatusRequest.password body) = Inr ()
            \<and> UpdateStatusRequest.status body \<in> {''Pending'', ''Confirmed'', ''Ready for Pickup'', ''Delivered''}
            \<and> db \<noteq> None
          \<longrightarrow> update_order_status environ db order_id body
                = (Inl (HTTPException 400 ''Invalid order id''), db))"
proof -
  have try_fails: "\<exists>e. update_order_status_try d order_id s = (Inl e, d)" if "db = Some d" for d s
  proof (cases "ObjectId order_id")
    case None
    then show ?thesis by (simp add: update_order_status_try_def)
  next
    case (Some oid)
    with assms that have "\<forall>doc\<in>set (d ''order''). map_of doc ''_id'' \<noteq> Some (VObjectId oid)"
      by blast
    then have "update_one (d ''order'') (VObjectId oid) upd = (0, d ''order'')" for upd
      by (rule update_one_no_match)
    with Some show ?thesis by (simp add: update_order_status_try_def)
  qed
  show ?thesis
  proof (cases db)
    case None
    then show ?thesis
      by (auto simp: update_order_status_def split: sum.splits)
  next
    case (Some d)
    from try_fails [OF Some] obtain e where "update_order_status_try d order_id (UpdateStatusRequest.status body) = (Inl e, d)"
      by blast
    with Some show ?thesis
      by (auto simp: update_order_status_def split: sum.splits)
  qed
qed

theorem update_order_status_unknown_id_witness:
  "update_order_status [] (Some (no_documents(''order'' :=
       [[(''_id'', VObjectId [0,0,0,0,0,0,0,0,0,0,0,161]), (''status'', VStr ''Pending'')]])))
     ''0000000000000000000000a2''
     \<lparr>UpdateStatusRequest.password = ''admin123'', status = ''Delivered''\<rparr>
   = (Inl (HTTPException 400 ''Invalid order id''),
      Some (no_documents(''order'' :=
       [[(''_id'', VObjectId [0,0,0,0,0,0,0,0,0,0,0,161]), (''status'', VStr ''Pending'')]])))
   \<and> update_order_status [] (Some (no_documents(''order'' :=
       [[(''_id'', VObjectId [0,0,0,0,0,0,0,0,0,0,0,161]), (''status'', VStr ''Pending'')]])))
     ''not-an-id''
     \<lparr>UpdateStatusRequest.password = ''admin123'', status = ''Delivered''\<rparr>
   = (Inl (HTTPException 400 ''Invalid order id''),
      Some (no_documents(''order'' :=
       [[(''_id'', VObjectId [0,0,0,0,0,0,0,0,0,0,0,161]), (''status'', VStr ''Pending'')]])))"
proof -
  have a2: "ObjectId ''0000000000000000000000a2'' = Some [0,0,0,0,0,0,0,0,0,0,0,162]"
    by (simp add: ObjectId_def hex_table_def is_space_def)
  have bad: "ObjectId ''not-an-id'' = None"
    by (simp add: ObjectId_def)
  show ?thesis
    using update_order_status_unknown_id [of "''0000000000000000000000a2''"
        "Some (no_documents(''order'' :=
          [[(''_id'', VObjectId [0,0,0,0,0,0,0,0,0,0,0,161]), (''status'', VStr ''Pending'')]]))"
        "[]" "\<lparr>UpdateStatusRequest.password = ''admin123'', status = ''Delivered''\<rparr>"]
      update_order_status_unknown_id [of "''not-an-id''"
        "Some (no_documents(''order'' :=
          [[(''_id'', VObjectId [0,0,0,0,0,0,0,0,0,0,0,161]), (''status'', VStr ''Pending'')]]))"
        "[]" "\<lparr>UpdateStatusRequest.password = ''admin123'', status = ''Delivered''\<rparr>"]
    by (simp add: a2 bad verify_admin_def getenv_def)
qed

text \<open>
  C8. A status request with the right password, a valid status and the id of a stored
  order succeeds; the first order with that id has its \<open>status\<close> set to the requested
  one and its \<open>updated_at\<close> set to \<open>None\<close>, every other field of it keeps its value, and
  every other order and every other collection is as it was.
\<close>

theorem update_order_status_frame:
  assumes "verify_admin environ (UpdateStatusRequest.password body) = Inr ()"
    and "UpdateStatusRequest.status body \<in> {''Pending'', ''Confirmed'', ''Ready for Pickup'', ''Delivered''}"
    and "ObjectId order_id = Some oid"
    and "d ''order'' = pre @ doc # post"
    and "\<forall>x\<in>set pre. map_of x ''_id'' \<noteq> Some (VObjectId oid)"
    and "map_of doc ''_id'' = Some (VObjectId oid)"
  shows "update_order_status environ (Some d) order_id body
           = (Inr [(''ok'', VBool True)],
              Some (d(''order'' := pre @
                set_fields [(''status'', VStr (UpdateStatusRequest.status body)), (''updated_at'', VNone)] doc
                # post)))
         \<and> (\<forall>k. map_of (set_fields [(''status'', VStr (UpdateStatusRequest.status body)),
                                     (''updated_at'', VNone)] doc) k
                = (if k = ''status'' then Some (VStr (UpdateStatusRequest.status body))
                   else if k = ''updated_at'' then Some VNone
                   else map_of doc k))"
proof -
  let ?upd = "[(''status'', VStr (UpdateStatusRequest.status body)), (''updated_at'', VNone)]"
  have "update_one (d ''order'') (VObjectId oid) ?upd = (1, pre @ set_fields ?upd doc # post)"
    using assms(4-6) by (simp add: update_one_first_match)
  with assms(1-3) have "update_order_status environ (Some d) order_id body
            = (Inr [(''ok'', VBool True)], Some (d(''order'' := pre @ set_fields ?upd doc # post)))"
    by (simp add: update_order_status_def update_order_status_try_def)
  then show ?thesis
    by (simp add: map_of_set_fields_status)
qed

theorem update_order_status_frame_witness:
  "update_order_status [] (Some (no_documents(''order'' :=
       [[(''_id'', VObjectId [0,0,0,0,0,0,0,0,0,0,0,160]), (''status'', VStr ''Confirmed'')],
        [(''_id'', VObjectId [0,0,0,0,0,0,0,0,0,0,0,161]), (''customer_name'', VStr ''Ann''),
         (''status'', VStr ''Pending''), (''total'', VFloat 12)],
        [(''_id'', VObjectId [0,0,0,0,0,0,0,0,0,0,0,162]), (''status'', VStr ''Pending'')]])))
     ''0000000000000000000000a1''
     \<lparr>UpdateStatusRequest.password = ''admin123'', status = ''Delivered''\<rparr>
   = (Inr [(''ok'', VBool True)],
      Some (no_documents(''order'' :=
       [[(''_id'', VObjectId [0,0,0,0,0,0,0,0,0,0,0,160]), (''status'', VStr ''Confirmed'')],
        [(''_id'', VObjectId [0,0,0,0,0,0,0,0,0,0,0,161]), (''customer_name'', VStr ''Ann''),
         (''status'', VStr ''Delivered''), (''total'', VFloat 12), (''updated_at'', VNone)],
        [(''_id'', VObjectId [0,0,0,0,0,0,0,0,0,0,0,162]), (''status'', VStr ''Pending'')]])))"
proof -
  let ?body = "\<lparr>UpdateStatusRequest.password = ''admin123'', status = ''Delivered''\<rparr>"
  let ?pre = "[[(''_id'', VObjectId [0,0,0,0,0,0,0,0,0,0,0,160]), (''status'', VStr ''Confirmed'')]]"
  let ?doc = "[(''_id'', VObjectId [0,0,0,0,0,0,0,0,0,0,0,161]), (''customer_name'', VStr ''Ann''),
         (''status'', VStr ''Pending''), (''total'', VFloat 12)]"
  let ?post = "[[(''_id'', VObjectId [0,0,0,0,0,0,0,0,0,0,0,162]), (''status'', VStr ''Pending'')]]"
  let ?d = "no_documents(''order'' := ?pre @ ?doc # ?post)"
  have h1: "verify_admin [] (UpdateStatusRequest.password ?body) = Inr ()"
    by (simp add: verify_admin_def getenv_def)
  have h2: "UpdateStatusRequest.status ?body \<in> {''Pending'', ''Confirmed'', ''Ready for Pickup'', ''Delivered''}"
    by simp
  have h3: "ObjectId ''0000000000000000000000a1'' = Some [0,0,0,0,0,0,0,0,0,0,0,161]"
    by (simp add: ObjectId_def hex_table_def is_space_def)
  have h4: "?d ''order'' = ?pre @ ?doc # ?post"
    by simp
  have h5: "\<forall>x\<in>set ?pre. map_of x ''_id'' \<noteq> Some (VObjectId [0,0,0,0,0,0,0,0,0,0,0,161])"
    by simp
  have h6: "map_of ?doc ''_id'' = Some (VObjectId [0,0,0,0,0,0,0,0,0,0,0,161])"
    by simp
  show ?thesis
    using update_order_status_frame [of "[]" ?body "''0000000000000000000000a1''" "[0,0,0,0,0,0,0,0,0,0,0,161]" ?d ?pre ?doc ?post, OF h1 h2 h3 h4 h5 h6]
    by (simp add: set_fields_def)
qed

section \<open>Facts about validation\<close>

lemma bind_result_Inr_iff:
  "(bind_result r f = Inr y) = (\<exists>x. r = Inr x \<and> f x = Inr y)"
  by (cases r) (simp_all add: bind_result_def)

lemma bind_result_Inl_iff:
  "(bind_result r f = Inl e) = (r = Inl e \<or> (\<exists>x. r = Inr x \<and> f x = Inl e))"
  by (cases r) (simp_all add: bind_result_def)

lemma validate_str_Inr: "validate_str v = Inr s \<Longrightarrow> v = VStr s"
  by (cases v) simp_all

lemma validate_optional_str_Inr:
  "validate_optional validate_str v = Inr x \<Longrightarrow> v = opt_val VStr x"
  by (auto simp: validate_optional_def opt_val_def bind_result_Inr_iff
      split: if_splits dest: validate_str_Inr)

lemma validate_float_ge_Inr:
  "validate_float_ge bound v = Inr x \<Longrightarrow> validate_float v = Inr x \<and> bound \<le> x"
  by (auto simp: validate_float_ge_def bind_result_Inr_iff split: if_splits)

lemma validate_str_error: "validate_str v = Inl e \<Longrightarrow> e = ValidationError"
  by (cases v) simp_all

lemma validate_bool_error: "validate_bool v = Inl e \<Longrightarrow> e = ValidationError"
  by (cases v) (auto split: if_splits option.splits)

lemma validate_float_error: "validate_float v = Inl e \<Longrightarrow> e = ValidationError"
  by (cases v) (auto split: option.splits)

lemma validate_float_ge_error: "validate_float_ge bound v = Inl e \<Longrightarrow> e = ValidationError"
  by (auto simp: validate_float_ge_def bind_result_Inl_iff split: if_splits dest: validate_float_error)

lemma validate_optional_str_error:
  "validate_optional validate_str v = Inl e \<Longrightarrow> e = ValidationError"
  by (auto simp: validate_optional_def bind_result_Inl_iff split: if_splits dest: validate_str_error)

lemma validate_literal_Inr:
  "validate_literal choices v = Inr s \<Longrightarrow> v = VStr s \<and> s \<in> set choices"
  by (auto simp: validate_literal_def split: val.splits if_splits)

lemma validate_Order_fields:
  assumes "validate_Order body = Inr order"
  shows "\<exists>b. body = VDict b
     \<and> map_of b ''payment_method'' = Some (VStr (payment_method order))
     \<and> payment_method order \<in> {''Cash on Delivery'', ''Card on Delivery''}
     \<and> (case map_of b ''status'' of None \<Rightarrow> Order.status order = ''Pending''
         | Some v \<Rightarrow> v = VStr (Order.status order))
     \<and> Order.status order \<in> {''Pending'', ''Confirmed'', ''Ready for Pickup'', ''Delivered''}"
proof (cases body)
  case (VDict b)
  from assms [unfolded VDict validate_Order_def val.case bind_result_Inr_iff]
  obtain cn ph ad pm st its tot where
    pm: "required b ''payment_method'' (validate_literal [''Cash on Delivery'', ''Card on Delivery'']) = Inr pm"
    and st: "with_default b ''status'' ''Pending''
          (validate_literal [''Pending'', ''Confirmed'', ''Ready for Pickup'', ''Delivered'']) = Inr st"
    and order: "order = \<lparr>customer_name = cn, phone = ph, address = ad, payment_method = pm,
               status = st, items = its, total = tot\<rparr>"
    by auto
  from pm have "map_of b ''payment_method'' = Some (VStr pm) \<and> pm \<in> {''Cash on Delivery'', ''Card on Delivery''}"
    by (auto simp: required_def split: option.splits dest: validate_literal_Inr)
  moreover from st have "(case map_of b ''status'' of None \<Rightarrow> st = ''Pending'' | Some v \<Rightarrow> v = VStr st)
      \<and> st \<in> {''Pending'', ''Confirmed'', ''Ready for Pickup'', ''Delivered''}"
    by (auto simp: with_default_def split: option.splits dest: validate_literal_Inr)
  ultimately show ?thesis using VDict order by (auto split: option.splits)
next
qed (use assms in \<open>simp_all add: validate_Order_def\<close>)


section \<open>Creating an order\<close>

text \<open>
  C1, as the code has it. Whenever \<open>POST /api/orders\<close> accepts a request, one order
  document is added, and its \<open>status\<close> is the status given in the request body, which
  is one of the four labels, or \<open>Pending\<close> when the body gives none: the status is a
  default of the \<open>Order\<close> schema, and \<open>create_order\<close> stores the order as validated.
\<close>

theorem create_order_status:
  assumes "post_api_orders db body new_oid = (Inr r, db')"
  shows "\<exists>b d doc. body = VDict b \<and> db = Some d
           \<and> db' = Some (d(''order'' := d ''order'' @ [doc]))
           \<and> map_of doc ''status''
                = Some (case map_of b ''status'' of None \<Rightarrow> VStr ''Pending'' | Some v \<Rightarrow> v)
           \<and> map_of doc ''status'' \<in> Some ` VStr ` {''Pending'', ''Confirmed'', ''Ready for Pickup'', ''Delivered''}"
proof -
  from assms obtain order where v: "validate_Order body = Inr order"
    and c: "create_order db order new_oid = (Inr r, db')"
    by (auto simp: post_api_orders_def split: sum.splits)
  from validate_Order_fields [OF v] obtain b where b: "body = VDict b"
    and st: "(case map_of b ''status'' of None \<Rightarrow> Order.status order = ''Pending''
         | Some v \<Rightarrow> v = VStr (Order.status order))"
    and mem: "Order.status order \<in> {''Pending'', ''Confirmed'', ''Ready for Pickup'', ''Delivered''}"
    by blast
  from c obtain d where d: "db = Some d"
    and db': "db' = Some (d(''order'' := d ''order'' @ [(''_id'', VObjectId new_oid) # dump_Order order]))"
    by (auto simp: create_order_def create_document_def split: if_splits option.splits)
  have s: "map_of ((''_id'', VObjectId new_oid) # dump_Order order) ''status'' = Some (VStr (Order.status order))"
    by (simp add: dump_Order_def)
  from st have "Some (VStr (Order.status order)) = Some (case map_of b ''status'' of None \<Rightarrow> VStr ''Pending'' | Some v \<Rightarrow> v)"
    by (simp split: option.splits)
  with b d db' s mem show ?thesis by (metis (no_types, lifting) image_eqI)
qed

theorem create_order_status_witness:
  "post_api_orders (Some no_documents)
     (VDict [(''customer_name'', VStr ''Ann''), (''phone'', VStr ''555''), (''address'', VStr ''1 Main St''),
             (''payment_method'', VStr ''Card on Delivery''), (''items'', VList []), (''total'', VInt 0)])
     [0,0,0,0,0,0,0,0,0,0,0,2]
   = (Inr [(''_id'', VStr ''000000000000000000000002'')],
      Some (no_documents(''order'' :=
        [[(''_id'', VObjectId [0,0,0,0,0,0,0,0,0,0,0,2]),
          (''customer_name'', VStr ''Ann''), (''phone'', VStr ''555''), (''address'', VStr ''1 Main St''),
          (''payment_method'', VStr ''Card on Delivery''), (''status'', VStr ''Pending''),
          (''items'', VList []), (''total'', VFloat 0)]])))
   \<and> (\<exists>d doc. Some no_documents = Some d
         \<and> Some (no_documents(''order'' :=
             [[(''_id'', VObjectId [0,0,0,0,0,0,0,0,0,0,0,2]),
               (''customer_name'', VStr ''Ann''), (''phone'', VStr ''555''), (''address'', VStr ''1 Main St''),
               (''payment_method'', VStr ''Card on Delivery''), (''status'', VStr ''Pending''),
               (''items'', VList []), (''total'', VFloat 0)]]))
           = Some (d(''order'' := d ''order'' @ [doc]))
         \<and> map_of doc ''status'' = Some (VStr ''Pending''))"
proof -
  have h: "post_api_orders (Some no_documents)
     (VDict [(''customer_name'', VStr ''Ann''), (''phone'', VStr ''555''), (''address'', VStr ''1 Main St''),
             (''payment_method'', VStr ''Card on Delivery''), (''items'', VList []), (''total'', VInt 0)])
     [0,0,0,0,0,0,0,0,0,0,0,2]
   = (Inr [(''_id'', VStr ''000000000000000000000002'')],
      Some (no_documents(''order'' :=
        [[(''_id'', VObjectId [0,0,0,0,0,0,0,0,0,0,0,2]),
          (''customer_name'', VStr ''Ann''), (''phone'', VStr ''555''), (''address'', VStr ''1 Main St''),
          (''payment_method'', VStr ''Card on Delivery''), (''status'', VStr ''Pending''),
          (''items'', VList []), (''total'', VFloat 0)]])))"
    by (simp add: post_api_orders_def validate_Order_def required_def with_default_def
      validate_literal_def validate_list_def validate_float_ge_def bind_result_def
      create_order_def create_document_def dump_Order_def str_ObjectId_def hexdigit_def no_documents_def)
  from create_order_status [OF h] h show ?thesis
    by auto
qed

text \<open>
  The claim as written fails: a request that supplies the status \<open>Delivered\<close> is accepted
  and the order is stored with that status.
\<close>

theorem create_order_status_counterexample:
  "post_api_orders (Some no_documents)
     (VDict [(''customer_name'', VStr ''Ann''), (''phone'', VStr ''555''), (''address'', VStr ''1 Main St''),
             (''payment_method'', VStr ''Cash on Delivery''), (''status'', VStr ''Delivered''),
             (''items'', VList []), (''total'', VInt 0)])
     [0,0,0,0,0,0,0,0,0,0,0,1]
   = (Inr [(''_id'', VStr ''000000000000000000000001'')],
      Some (no_documents(''order'' :=
        [[(''_id'', VObjectId [0,0,0,0,0,0,0,0,0,0,0,1]),
          (''customer_name'', VStr ''Ann''), (''phone'', VStr ''555''), (''address'', VStr ''1 Main St''),
          (''payment_method'', VStr ''Cash on Delivery''), (''status'', VStr ''Delivered''),
          (''items'', VList []), (''total'', VFloat 0)]])))"
  by (simp add: post_api_orders_def validate_Order_def required_def with_default_def
      validate_literal_def validate_list_def validate_float_ge_def bind_result_def
      create_order_def create_document_def dump_Order_def str_ObjectId_def hexdigit_def no_documents_def)

text \<open>
  C5. An order whose payment method is neither \<open>Cash on Delivery\<close> nor
  \<open>Card on Delivery\<close> is refused with a client error and nothing is stored: by
  \<open>create_order\<close> itself with status 400, and already by the validation of the request
  body, with status 422, when the body gives another value or none.
\<close>

theorem create_order_payment_method:
  "(payment_method order \<notin> {''Cash on Delivery'', ''Card on Delivery''}
      \<longrightarrow> create_order db order new_oid
            = (Inl (HTTPException 400 ''Unsupported payment method''), db)
          \<and> client_error (HTTPException 400 ''Unsupported payment method''))
   \<and> ((\<forall>b. body = VDict b \<longrightarrow> map_of b ''payment_method''
              \<notin> {Some (VStr ''Cash on Delivery''), Some (VStr ''Card on Delivery'')})
      \<longrightarrow> post_api_orders db body new_oid = (Inl RequestValidationError, db)
          \<and> client_error RequestValidationError)"
proof -
  have "validate_Order body \<noteq> Inr order'" if "\<forall>b. body = VDict b \<longrightarrow> map_of b ''payment_method''
              \<notin> {Some (VStr ''Cash on Delivery''), Some (VStr ''Card on Delivery'')}" for order'
    using validate_Order_fields [of body order'] that by auto
  then show ?thesis
    by (auto simp: create_order_def post_api_orders_def client_error_def split: sum.splits)
qed

theorem create_order_payment_method_witness:
  "create_order (Some no_documents)
      \<lparr>customer_name = ''Ann'', phone = ''555'', address = ''1 Main St'', payment_method = ''Bitcoin'',
        status = ''Pending'', items = [], total = 0\<rparr> [0,0,0,0,0,0,0,0,0,0,0,3]
    = (Inl (HTTPException 400 ''Unsupported payment method''), Some no_documents)
   \<and> post_api_orders (Some no_documents)
     (VDict [(''customer_name'', VStr ''Ann''), (''phone'', VStr ''555''), (''address'', VStr ''1 Main St''),
             (''payment_method'', VStr ''Bitcoin''), (''items'', VList []), (''total'', VInt 0)])
     [0,0,0,0,0,0,0,0,0,0,0,3]
    = (Inl RequestValidationError, Some no_documents)"
  using create_order_payment_method [of
      "\<lparr>customer_name = ''Ann'', phone = ''555'', address = ''1 Main St'', payment_method = ''Bitcoin'',
        status = ''Pending'', items = [], total = 0\<rparr>" "Some no_documents" "[0,0,0,0,0,0,0,0,0,0,0,3]"
      "VDict [(''customer_name'', VStr ''Ann''), (''phone'', VStr ''555''), (''address'', VStr ''1 Main St''),
             (''payment_method'', VStr ''Bitcoin''), (''items'', VList []), (''total'', VInt 0)]"]
  by simp


section \<open>Creating a catalog item\<close>

lemma validate_ButcherItem_title:
  "validate_ButcherItem (VDict item) = Inr it \<Longrightarrow> map_of item ''title'' = Some (VStr (ButcherItem.title it))"
  by (auto simp: validate_ButcherItem_def bind_result_Inr_iff required_def
      split: option.splits dest: validate_str_Inr)

text \<open>
  C6, as the code has it. \<open>POST /api/admin/butcher\<close> refuses, with a validation error and
  with nothing stored, every candidate whose title is missing or is not a string; the
  schema puts no bound on the length of the title.
\<close>

theorem create_butcher_item_title_required:
  assumes "\<forall>b item. body = VDict b \<and> map_of b ''item'' = Some (VDict item)
             \<longrightarrow> (\<forall>s. map_of item ''title'' \<noteq> Some (VStr s))"
  shows "post_api_admin_butcher environ db body new_oid = (Inl RequestValidationError, db)"
proof (cases body)
  case (VDict b)
  have "required b ''item'' validate_ButcherItem \<noteq> Inr it" for it
  proof
    assume r: "required b ''item'' validate_ButcherItem = Inr it"
    then obtain v where v: "map_of b ''item'' = Some v" "validate_ButcherItem v = Inr it"
      by (auto simp: required_def split: option.splits)
    then obtain item where "v = VDict item"
      by (cases v) (simp_all add: validate_ButcherItem_def)
    with v assms VDict validate_ButcherItem_title [of item it] show False by auto
  qed
  with VDict show ?thesis
    by (auto simp: post_api_admin_butcher_def split: sum.splits)
qed (simp_all add: post_api_admin_butcher_def)

theorem create_butcher_item_title_required_witness:
  "post_api_admin_butcher [] (Some no_documents)
     (VDict [(''item'', VDict [(''description'', VStr ''Ribeye''), (''price_per_kg'', VFloat 12)]),
             (''auth'', VDict [(''password'', VStr ''admin123'')])])
     [0,0,0,0,0,0,0,0,0,0,0,1]
   = (Inl RequestValidationError, Some no_documents)"
  using create_butcher_item_title_required [of
     "VDict [(''item'', VDict [(''description'', VStr ''Ribeye''), (''price_per_kg'', VFloat 12)]),
             (''auth'', VDict [(''password'', VStr ''admin123'')])]" "[]" "Some no_documents"
     "[0,0,0,0,0,0,0,0,0,0,0,1]"]
  by simp

text \<open>
  The claim as written fails: a candidate whose title is the empty string is accepted
  and stored.
\<close>

theorem create_butcher_item_title_counterexample:
  "post_api_admin_butcher [] (Some no_documents)
     (VDict [(''item'', VDict [(''title'', VStr ''''), (''price_per_kg'', VFloat 12)]),
             (''auth'', VDict [(''password'', VStr ''admin123'')])])
     [0,0,0,0,0,0,0,0,0,0,0,1]
   = (Inr [(''_id'', VStr ''000000000000000000000001'')],
      Some (no_documents(''butcheritem'' :=
        [[(''_id'', VObjectId [0,0,0,0,0,0,0,0,0,0,0,1]),
          (''title'', VStr ''''), (''description'', VNone), (''price_per_kg'', VFloat 12),
          (''available'', VBool True), (''image'', VNone)]])))"
  by (simp add: post_api_admin_butcher_def validate_ButcherItem_def validate_AdminLoginRequest_def
      required_def with_default_def validate_float_ge_def bind_result_def
      create_butcher_item_def verify_admin_def getenv_def create_document_def
      dump_ButcherItem_def opt_val_def str_ObjectId_def hexdigit_def no_documents_def)


section \<open>Listing the catalog\<close>

lemma validate_ButcherItem_public:
  assumes "validate_ButcherItem (VDict (map (\<lambda>k. (k, dict_get d k))
          [''title'', ''description'', ''price_per_kg'', ''available'', ''image''])) = Inr item"
  shows "dict_get d ''title'' = VStr (ButcherItem.title item)"
    and "dict_get d ''description'' = opt_val VStr (ButcherItem.description item)"
    and "validate_float (dict_get d ''price_per_kg'') = Inr (price_per_kg item)"
    and "validate_bool (dict_get d ''available'') = Inr (ButcherItem.available item)"
    and "dict_get d ''image'' = opt_val VStr (ButcherItem.image item)"
  using assms
  by (auto simp: validate_ButcherItem_def bind_result_Inr_iff required_def with_default_def
      dest: validate_str_Inr validate_optional_str_Inr validate_float_ge_Inr)

lemma validate_GroceryItem_public:
  assumes "validate_GroceryItem (VDict (map (\<lambda>k. (k, dict_get d k))
          [''title'', ''description'', ''price'', ''available'', ''image''])) = Inr item"
  shows "dict_get d ''title'' = VStr (GroceryItem.title item)"
    and "dict_get d ''description'' = opt_val VStr (GroceryItem.description item)"
    and "validate_float (dict_get d ''price'') = Inr (price item)"
    and "validate_bool (dict_get d ''available'') = Inr (GroceryItem.available item)"
    and "dict_get d ''image'' = opt_val VStr (GroceryItem.image item)"
  using assms
  by (auto simp: validate_GroceryItem_def bind_result_Inr_iff required_def with_default_def
      dest: validate_str_Inr validate_optional_str_Inr validate_float_ge_Inr)

lemma validate_ButcherItem_error: "validate_ButcherItem v = Inl e \<Longrightarrow> e = ValidationError"
  by (cases v)
    (auto simp: validate_ButcherItem_def bind_result_Inl_iff required_def with_default_def
      split: option.splits
      dest: validate_str_error validate_optional_str_error validate_float_ge_error validate_bool_error)

lemma validate_GroceryItem_error: "validate_GroceryItem v = Inl e \<Longrightarrow> e = ValidationError"
  by (cases v)
    (auto simp: validate_GroceryItem_def bind_result_Inl_iff required_def with_default_def
      split: option.splits
      dest: validate_str_error validate_optional_str_error validate_float_ge_error validate_bool_error)

lemma list_butcher_items_loop_fails:
  assumes "doc \<in> set docs"
    and "validate_ButcherItem (VDict (map (\<lambda>k. (k, dict_get doc k))
          [''title'', ''description'', ''price_per_kg'', ''available'', ''image''])) = Inl e"
  shows "list_butcher_items_loop docs acc = Inl ValidationError"
  using assms
proof (induction docs arbitrary: acc)
  case Nil
  then show ?case by simp
next
  case (Cons d docs)
  show ?case
  proof (cases "validate_ButcherItem (VDict (map (\<lambda>k. (k, dict_get d k))
          [''title'', ''description'', ''price_per_kg'', ''available'', ''image'']))")
    case (Inl e')
    then have "e' = ValidationError" by (rule validate_ButcherItem_error)
    with Inl show ?thesis by (simp add: bind_result_def)
  next
    case (Inr item)
    with Cons.prems have "doc \<in> set docs" by auto
    from Cons.IH [OF this Cons.prems(2)] Inr show ?thesis by (simp add: bind_result_def)
  qed
qed

lemma list_grocery_items_loop_fails:
  assumes "doc \<in> set docs"
    and "validate_GroceryItem (VDict (map (\<lambda>k. (k, dict_get doc k))
          [''title'', ''description'', ''price'', ''available'', ''image''])) = Inl e"
  shows "list_grocery_items_loop docs acc = Inl ValidationError"
  using assms
proof (induction docs arbitrary: acc)
  case Nil
  then show ?case by simp
next
  case (Cons d docs)
  show ?case
  proof (cases "validate_GroceryItem (VDict (map (\<lambda>k. (k, dict_get d k))
          [''title'', ''description'', ''price'', ''available'', ''image'']))")
    case (Inl e')
    then have "e' = ValidationError" by (rule validate_GroceryItem_error)
    with Inl show ?thesis by (simp add: bind_result_def)
  next
    case (Inr item)
    with Cons.prems have "doc \<in> set docs" by auto
    from Cons.IH [OF this Cons.prems(2)] Inr show ?thesis by (simp add: bind_result_def)
  qed
qed

lemma dict_get_VNone: "(dict_get d k = VNone) = (map_of d k \<in> {None, Some VNone})"
  by (auto simp: dict_get_def split: option.splits)










text \<open>
  C10. When some stored document has no \<open>title\<close> or no price, the key being absent or its
  value \<open>None\<close>, the listing of its kind fails as a whole with the \<open>ValidationError\<close> of
  the model constructor, wherever in the collection the document is and whatever the
  other documents are.
\<close>

theorem list_public_required_field_missing:
  "(doc \<in> set (d ''butcheritem'')
      \<and> (map_of doc ''title'' \<in> {None, Some VNone} \<or> map_of doc ''price_per_kg'' \<in> {None, Some VNone})
    \<longrightarrow> list_butcher_items (Some d) = Inl ValidationError
        \<and> get_api_butcher (Some d) = Inl ValidationError)
   \<and> (doc \<in> set (d ''groceryitem'')
      \<and> (map_of doc ''title'' \<in> {None, Some VNone} \<or> map_of doc ''price'' \<in> {None, Some VNone})
    \<longrightarrow> list_grocery_items (Some d) = Inl ValidationError
        \<and> get_api_grocery (Some d) = Inl ValidationError)"
proof (intro conjI impI; elim conjE)
  assume doc: "doc \<in> set (d ''butcheritem'')"
    and missing: "map_of doc ''title'' \<in> {None, Some VNone} \<or> map_of doc ''price_per_kg'' \<in> {None, Some VNone}"
  from missing have "dict_get doc ''title'' = VNone \<or> dict_get doc ''price_per_kg'' = VNone"
    by (simp only: dict_get_VNone)
  then have "validate_ButcherItem (VDict (map (\<lambda>k. (k, dict_get doc k))
          [''title'', ''description'', ''price_per_kg'', ''available'', ''image''])) \<noteq> Inr item" for item
    using validate_ButcherItem_public(1,3) [of doc item] by auto
  then obtain e where "validate_ButcherItem (VDict (map (\<lambda>k. (k, dict_get doc k))
          [''title'', ''description'', ''price_per_kg'', ''available'', ''image''])) = Inl e"
    by (cases "validate_ButcherItem (VDict (map (\<lambda>k. (k, dict_get doc k))
          [''title'', ''description'', ''price_per_kg'', ''available'', ''image'']))"; blast)
  from list_butcher_items_loop_fails [OF doc this]
  show b: "list_butcher_items (Some d) = Inl ValidationError"
    by (simp add: list_butcher_items_def get_documents_def bind_result_def)
  then show "get_api_butcher (Some d) = Inl ValidationError"
    by (simp add: get_api_butcher_def bind_result_def)
next
  assume doc: "doc \<in> set (d ''groceryitem'')"
    and missing: "map_of doc ''title'' \<in> {None, Some VNone} \<or> map_of doc ''price'' \<in> {None, Some VNone}"
  from missing have "dict_get doc ''title'' = VNone \<or> dict_get doc ''price'' = VNone"
    by (simp only: dict_get_VNone)
  then have "validate_GroceryItem (VDict (map (\<lambda>k. (k, dict_get doc k))
          [''title'', ''description'', ''price'', ''available'', ''image''])) \<noteq> Inr item" for item
    using validate_GroceryItem_public(1,3) [of doc item] by auto
  then obtain e where "validate_GroceryItem (VDict (map (\<lambda>k. (k, dict_get doc k))
          [''title'', ''description'', ''price'', ''available'', ''image''])) = Inl e"
    by (cases "validate_GroceryItem (VDict (map (\<lambda>k. (k, dict_get doc k))
          [''title'', ''description'', ''price'', ''available'', ''image'']))"; blast)
  from list_grocery_items_loop_fails [OF doc this]
  show g: "list_grocery_items (Some d) = Inl ValidationError"
    by (simp add: list_grocery_items_def get_documents_def bind_result_def)
  then show "get_api_grocery (Some d) = Inl ValidationError"
    by (simp add: get_api_grocery_def bind_result_def)
qed

theorem list_public_required_field_missing_witness:
  "get_api_butcher (Some (no_documents(''butcheritem'' :=
       [[(''_id'', VObjectId [0,0,0,0,0,0,0,0,0,0,0,1]), (''title'', VStr ''Ribeye''),
         (''price_per_kg'', VInt 30), (''available'', VBool True)],
        [(''_id'', VObjectId [0,0,0,0,0,0,0,0,0,0,0,2]), (''title'', VStr ''Lamb Chops''),
         (''available'', VBool True)]])))
    = Inl ValidationError
   \<and> get_api_grocery (Some (no_documents(''groceryitem'' :=
       [[(''_id'', VObjectId [0,0,0,0,0,0,0,0,0,0,0,3]), (''title'', VNone),
         (''price'', VFloat 3.5), (''available'', VBool True)],
        [(''_id'', VObjectId [0,0,0,0,0,0,0,0,0,0,0,4]), (''title'', VStr ''Milk''),
         (''price'', VFloat 3.5), (''available'', VBool True)]])))
    = Inl ValidationError"
  using list_public_required_field_missing [of
      "[(''_id'', VObjectId [0,0,0,0,0,0,0,0,0,0,0,2]), (''title'', VStr ''Lamb Chops''),
         (''available'', VBool True)]"
      "no_documents(''butcheritem'' :=
       [[(''_id'', VObjectId [0,0,0,0,0,0,0,0,0,0,0,1]), (''title'', VStr ''Ribeye''),
         (''price_per_kg'', VInt 30), (''available'', VBool True)],
        [(''_id'', VObjectId [0,0,0,0,0,0,0,0,0,0,0,2]), (''title'', VStr ''Lamb Chops''),
         (''available'', VBool True)]])"]
    list_public_required_field_missing [of
      "[(''_id'', VObjectId [0,0,0,0,0,0,0,0,0,0,0,3]), (''title'', VNone),
         (''price'', VFloat 3.5), (''available'', VBool True)]"
      "no_documents(''groceryitem'' :=
       [[(''_id'', VObjectId [0,0,0,0,0,0,0,0,0,0,0,3]), (''title'', VNone),
         (''price'', VFloat 3.5), (''available'', VBool True)],
        [(''_id'', VObjectId [0,0,0,0,0,0,0,0,0,0,0,4]), (''title'', VStr ''Milk''),
         (''price'', VFloat 3.5), (''available'', VBool True)]])"]
  by simp

end
